theory Spec2Isabelle
  imports Complex_Main "HOL-Library.Word"
begin

section \<open>JavaScript strings\<close>

text \<open>
  A JavaScript string is a sequence of UTF-16 code units. The regular expressions of
  \<^verbatim>\<open>app.js\<close> carry no \<^verbatim>\<open>u\<close> flag, so \<^verbatim>\<open>replace\<close>, \<^verbatim>\<open>split\<close> and \<^verbatim>\<open>trim\<close> all work on
  code units. ASCII literals of the source are written \<open>utf16 ''...''\<close>; literals
  with other characters are written as their code units.
\<close>

type_synonym code_unit = "16 word"
type_synonym jsstring = "code_unit list"

definition utf16 :: "string \<Rightarrow> jsstring" where
  "utf16 s = map (\<lambda>c. of_nat (of_char c)) s"

text \<open>
  A value that is a string, or is \<^verbatim>\<open>null\<close>/\<^verbatim>\<open>undefined\<close> (\<open>None\<close>), is truthy when it is
  a non-empty string. \<open>js_or v d\<close> is \<^verbatim>\<open>v || d\<close> for a string default \<open>d\<close>.
\<close>

definition truthy :: "jsstring option \<Rightarrow> bool" where
  "truthy v = (case v of None \<Rightarrow> False | Some s \<Rightarrow> s \<noteq> [])"

definition js_or :: "jsstring option \<Rightarrow> jsstring \<Rightarrow> jsstring" where
  "js_or v d = (case v of None \<Rightarrow> d | Some s \<Rightarrow> if s = [] then d else s)"

text \<open>Reading an array at an index: \<^verbatim>\<open>undefined\<close> (\<open>None\<close>) out of range.\<close>

definition elem_at :: "'a list \<Rightarrow> nat \<Rightarrow> 'a option" where
  "elem_at xs i = (if i < length xs then Some (xs ! i) else None)"

text \<open>
  ECMAScript's LineTerminator and WhiteSpace code points (all in the Basic Multilingual
  Plane). \<^verbatim>\<open>String.prototype.trim\<close> strips both classes from both ends; the regular
  expression atom \<^verbatim>\<open>.\<close> matches every code unit that is not a LineTerminator.
\<close>

definition isLineTerminator :: "code_unit \<Rightarrow> bool" where
  "isLineTerminator c = (c = 0x000A \<or> c = 0x000D \<or> c = 0x2028 \<or> c = 0x2029)"

definition isWhiteSpace :: "code_unit \<Rightarrow> bool" where
  "isWhiteSpace c =
     (c = 0x0009 \<or> c = 0x000B \<or> c = 0x000C \<or> c = 0x0020 \<or> c = 0x00A0 \<or> c = 0x1680
      \<or> (0x2000 \<le> c \<and> c \<le> 0x200A) \<or> c = 0x202F \<or> c = 0x205F \<or> c = 0x3000
      \<or> c = 0xFEFF)"

definition isTrimmed :: "code_unit \<Rightarrow> bool" where
  "isTrimmed c = (isWhiteSpace c \<or> isLineTerminator c)"

definition trimStart :: "jsstring \<Rightarrow> jsstring" where
  "trimStart s = dropWhile isTrimmed s"

definition trim :: "jsstring \<Rightarrow> jsstring" where
  "trim s = rev (dropWhile isTrimmed (rev (dropWhile isTrimmed s)))"


section \<open>escapeHtml\<close>

text \<open>
  \<^verbatim>\<open>s.replace(/c/g, r)\<close> for a pattern that is the single code unit \<open>c\<close> and a
  replacement \<open>r\<close> without \<^verbatim>\<open>$\<close>: every occurrence of \<open>c\<close> becomes \<open>r\<close>.
\<close>

definition replace_all :: "code_unit \<Rightarrow> jsstring \<Rightarrow> jsstring \<Rightarrow> jsstring" where
  "replace_all c r s = concat (map (\<lambda>x. if x = c then r else [x]) s)"

definition AMP :: code_unit where "AMP = 0x26"
definition LT :: code_unit where "LT = 0x3C"
definition GT :: code_unit where "GT = 0x3E"
definition QUOT :: code_unit where "QUOT = 0x22"
definition APOS :: code_unit where "APOS = 0x27"
definition COLON :: code_unit where "COLON = 0x3A"
definition NL :: code_unit where "NL = 0x0A"

text \<open>The five passes of \<^verbatim>\<open>escapeHtml\<close>, in the order of the source.\<close>

definition escapeHtml :: "jsstring \<Rightarrow> jsstring" where
  "escapeHtml unsafe =
     replace_all APOS (utf16 ''&#039;'')
       (replace_all QUOT (utf16 ''&quot;'')
         (replace_all GT (utf16 ''&gt;'')
           (replace_all LT (utf16 ''&lt;'')
             (replace_all AMP (utf16 ''&amp;'') unsafe))))"

text \<open>
  The escaping as the specification words it: each of the five characters is replaced by
  its entity, every other code unit is kept.
\<close>

definition entity :: "code_unit \<Rightarrow> jsstring" where
  "entity c =
     (if c = AMP then utf16 ''&amp;''
      else if c = LT then utf16 ''&lt;''
      else if c = GT then utf16 ''&gt;''
      else if c = QUOT then utf16 ''&quot;''
      else if c = APOS then utf16 ''&#039;''
      else [c])"


section \<open>The Result Renderer\<close>

text \<open>
  \<^verbatim>\<open>label.split(/:(.+)/)\<close>. The split algorithm of ECMAScript tries the pattern at
  each position \<open>q\<close> of the string in turn, anchored there. \<open>match_colon_rest\<close> is that
  anchored match on the suffix starting at \<open>q\<close>: a colon, then the longest non-empty run of
  code units that are not line terminators, which is the capture group. It returns
  the capture and the suffix left after the match.
\<close>

definition match_colon_rest :: "jsstring \<Rightarrow> (jsstring \<times> jsstring) option" where
  "match_colon_rest s =
     (case s of
        [] \<Rightarrow> None
      | c # cs \<Rightarrow>
          if c = COLON \<and> takeWhile (\<lambda>x. \<not> isLineTerminator x) cs \<noteq> []
          then Some (takeWhile (\<lambda>x. \<not> isLineTerminator x) cs,
                     dropWhile (\<lambda>x. \<not> isLineTerminator x) cs)
          else None)"

text \<open>
  The loop of the split algorithm. \<open>piece\<close> is the text between the end \<open>p\<close> of the
  last match and the position \<open>q\<close>; the second argument is the suffix from \<open>q\<close>. Without a
  match at \<open>q\<close> the position advances by one; with a match the piece, then the capture,
  are appended to the result and the search goes on after the match. (A match of this
  pattern is never empty, so the algorithm's branch for an empty match at \<open>p\<close> is never
  taken.)
\<close>

function split_from :: "jsstring \<Rightarrow> jsstring \<Rightarrow> jsstring list" where
  "split_from piece [] = [piece]"
| "split_from piece (c # cs) =
     (case match_colon_rest (c # cs) of
        None \<Rightarrow> split_from (piece @ [c]) cs
      | Some (cap, rest) \<Rightarrow> piece # cap # split_from [] rest)"
  by pat_completeness auto
termination
  by (relation "measure (\<lambda>(piece, s). length s)")
     (auto simp: match_colon_rest_def less_Suc_eq_le length_dropWhile_le split: if_splits)

text \<open>On the empty string the algorithm returns \<^verbatim>\<open>[]\<close> if the pattern matches it, else \<^verbatim>\<open>[""]\<close>.\<close>

definition split_colon_rest :: "jsstring \<Rightarrow> jsstring list" where
  "split_colon_rest s =
     (if s = [] then (case match_colon_rest [] of None \<Rightarrow> [[]] | Some m \<Rightarrow> [])
      else split_from [] s)"

text \<open>
  \<^verbatim>\<open>const title = parts[0] ? parts[0].trim() : "";\<close>
  \<^verbatim>\<open>const desc = parts[1] ? parts[1].trim() : "";\<close>
\<close>

definition part_trimmed :: "jsstring list \<Rightarrow> nat \<Rightarrow> jsstring" where
  "part_trimmed parts i =
     (case elem_at parts i of None \<Rightarrow> [] | Some p \<Rightarrow> if p \<noteq> [] then trim p else [])"

definition label_title :: "jsstring \<Rightarrow> jsstring" where
  "label_title label = part_trimmed (split_colon_rest label) 0"

definition label_desc :: "jsstring \<Rightarrow> jsstring" where
  "label_desc label = part_trimmed (split_colon_rest label) 1"

text \<open>An element created by the renderer, and the results container.\<close>

record element =
  className :: jsstring
  innerHTML :: jsstring

text \<open>
  The container \<^verbatim>\<open>resultsDiv\<close>: \<open>markup\<close> is the string last assigned to its
  \<^verbatim>\<open>innerHTML\<close>, \<open>appended\<close> the elements added by \<^verbatim>\<open>appendChild\<close> since then, in order.
\<close>

record results_div =
  markup :: jsstring
  appended :: "element list"

definition set_innerHTML :: "jsstring \<Rightarrow> results_div \<Rightarrow> results_div" where
  "set_innerHTML s r = \<lparr>markup = s, appended = []\<rparr>"

definition appendChild :: "element \<Rightarrow> results_div \<Rightarrow> results_div" where
  "appendChild e r = r\<lparr>appended := appended r @ [e]\<rparr>"

text \<open>The template literal assigned to \<^verbatim>\<open>card.innerHTML\<close>, from the two escaped texts.\<close>

definition desc_element :: "jsstring \<Rightarrow> jsstring" where
  "desc_element safeDesc =
     (if safeDesc \<noteq> []
      then utf16 ''<div class='' @ [QUOT] @ utf16 ''vuln-desc'' @ [QUOT] @ utf16 ''>''
           @ safeDesc @ utf16 ''</div>''
      else [])"

definition card_template :: "jsstring \<Rightarrow> jsstring \<Rightarrow> jsstring" where
  "card_template safeTitle safeDesc =
     [NL] @ utf16 ''      <div class='' @ [QUOT] @ utf16 ''vuln-title'' @ [QUOT]
     @ utf16 ''><strong>'' @ safeTitle @ utf16 ''</strong></div>''
     @ [NL] @ utf16 ''      '' @ desc_element safeDesc
     @ [NL] @ utf16 ''    ''"

definition card :: "jsstring \<Rightarrow> element" where
  "card label =
     (let title = label_title label;
          desc = label_desc label;
          safeTitle = escapeHtml title;
          safeDesc = escapeHtml desc
      in \<lparr>className = utf16 ''card'', innerHTML = card_template safeTitle safeDesc\<rparr>)"

text \<open>\<^verbatim>\<open>labels.forEach\<close>: one card appended per label, in order.\<close>

primrec forEach_label :: "jsstring list \<Rightarrow> results_div \<Rightarrow> results_div" where
  "forEach_label [] r = r"
| "forEach_label (label # labels) r = forEach_label labels (appendChild (card label) r)"

text \<open>
  The notice of the source, \<^verbatim>\<open><div class='small'>...</div>\<close> around a fixed Chinese
  sentence ("no vulnerability above the threshold was detected").
\<close>

definition no_findings_notice :: jsstring where
  "no_findings_notice =
     utf16 ''<div class='' @ [APOS] @ utf16 ''small'' @ [APOS] @ utf16 ''>''
     @ [0x672A, 0x68C0, 0x6D4B, 0x5230, 0x9AD8, 0x4E8E, 0x9608, 0x503C, 0x7684, 0x6F0F,
        0x6D1E, 0x3002]
     @ utf16 ''</div>''"

text \<open>
  The parsed response body, as far as \<^verbatim>\<open>showResults\<close> reads it. A field is \<open>None\<close> when
  the key is missing from the object; the destructuring defaults then apply.
\<close>

record detection_result =
  labels :: "jsstring list option"
  probs :: "rat list option"

definition showResults :: "detection_result \<Rightarrow> results_div \<Rightarrow> results_div" where
  "showResults data r0 =
     (let r = set_innerHTML [] r0;
          ls = (case labels data of None \<Rightarrow> [] | Some l \<Rightarrow> l);
          ps = (case probs data of None \<Rightarrow> [] | Some p \<Rightarrow> p)
      in if length ls = 0 then set_innerHTML no_findings_notice r
         else forEach_label ls r)"

text \<open>The number of cards in the container: the appended elements of class \<^verbatim>\<open>card\<close>.\<close>

definition cards :: "results_div \<Rightarrow> element list" where
  "cards r = filter (\<lambda>e. className e = utf16 ''card'') (appended r)"


section \<open>The Local Session Store and the page\<close>

text \<open>
  \<^verbatim>\<open>localStorage\<close> maps string keys to string values; \<^verbatim>\<open>getItem\<close> of a missing key is
  \<^verbatim>\<open>null\<close> (\<open>None\<close>).
\<close>

type_synonym storage = "jsstring \<rightharpoonup> jsstring"

definition getItem :: "jsstring \<Rightarrow> storage \<Rightarrow> jsstring option" where
  "getItem k st = st k"

definition setItem :: "jsstring \<Rightarrow> jsstring \<Rightarrow> storage \<Rightarrow> storage" where
  "setItem k v st = st(k \<mapsto> v)"

definition removeItem :: "jsstring \<Rightarrow> storage \<Rightarrow> storage" where
  "removeItem k st = st(k := None)"

definition USERNAME :: jsstring where "USERNAME = utf16 ''username''"
definition TOKEN :: jsstring where "TOKEN = utf16 ''token''"
definition THEME :: jsstring where "THEME = utf16 ''theme''"

definition LOGIN_PAGE :: jsstring where "LOGIN_PAGE = utf16 ''/login.html''"
definition INDEX_PAGE :: jsstring where "INDEX_PAGE = utf16 ''/index.html''"

text \<open>
  What a handler does to the browser, besides the storage: navigations
  (\<^verbatim>\<open>location.href = url\<close> or \<^verbatim>\<open>location.replace(url)\<close>), in the order requested;
  \<^verbatim>\<open>alert\<close> dialogs shown to the user; console entries, of which only the level is kept.
\<close>

datatype navigation = Href jsstring | Replace jsstring

datatype console_entry = ConsoleLog | ConsoleWarn | ConsoleError

record page =
  localStorage :: storage
  navigations :: "navigation list"

record app_page = page +
  alerts :: "jsstring list"
  console :: "console_entry list"

record login_page = page +
  msg_textContent :: jsstring
  msg_color :: jsstring

text \<open>
  The outcome of an awaited \<^verbatim>\<open>fetch\<close>: the promise rejects (a network error, with the
  error's message) or resolves to a response. Of a response the handlers read \<^verbatim>\<open>ok\<close>,
  \<^verbatim>\<open>text()\<close> and \<^verbatim>\<open>json()\<close>; \<^verbatim>\<open>json()\<close> rejects with a message (\<open>Inl\<close>) when the body
  is not JSON, else yields the parsed body (\<open>Inr\<close>).
\<close>

record 'd response =
  ok :: bool
  body_text :: jsstring
  body_json :: "jsstring + 'd"

datatype 'd fetch_outcome = Rejected jsstring | Resolved "'d response"


section \<open>The Session Guard\<close>

text \<open>The callback given to \<^verbatim>\<open>setTimeout\<close> at the top of \<^verbatim>\<open>app.js\<close>.\<close>

definition session_guard :: "app_page \<Rightarrow> app_page" where
  "session_guard p =
     (let username = getItem USERNAME (localStorage p);
          token = getItem TOKEN (localStorage p);
          p1 = p\<lparr>console := console p @ [ConsoleLog]\<rparr>
      in if \<not> truthy username \<or> \<not> truthy token
         then p1\<lparr>console := console p1 @ [ConsoleWarn],
                 navigations := navigations p1 @ [Href LOGIN_PAGE]\<rparr>
         else p1\<lparr>console := console p1 @ [ConsoleLog]\<rparr>)"

definition guard_redirects :: "storage \<Rightarrow> bool" where
  "guard_redirects st =
     (navigations (session_guard \<lparr>localStorage = st, navigations = [], alerts = [],
        console = []\<rparr>) = [Href LOGIN_PAGE])"


section \<open>The Login Flow\<close>

text \<open>The body of a successful login response: both fields are optional strings.\<close>

record login_data =
  token :: "jsstring option"
  username :: "jsstring option"

definition MOCK_TOKEN :: jsstring where "MOCK_TOKEN = utf16 ''mock-token''"

text \<open>The three messages of \<^verbatim>\<open>login.js\<close>: "enter user name and password", "login
  succeeded, redirecting...", "login failed:".\<close>

definition MSG_ENTER_CREDENTIALS :: jsstring where
  "MSG_ENTER_CREDENTIALS =
     [0x8BF7, 0x8F93, 0x5165, 0x7528, 0x6237, 0x540D, 0x548C, 0x5BC6, 0x7801]"

definition MSG_LOGIN_OK :: jsstring where
  "MSG_LOGIN_OK =
     [0x767B, 0x5F55, 0x6210, 0x529F, 0xFF0C, 0x6B63, 0x5728, 0x8DF3, 0x8F6C, 0x002E, 0x002E,
      0x002E]"

definition MSG_LOGIN_FAILED :: jsstring where
  "MSG_LOGIN_FAILED = [0x767B, 0x5F55, 0x5931, 0x8D25, 0xFF1A]"

definition login_failed :: "jsstring \<Rightarrow> login_page \<Rightarrow> login_page" where
  "login_failed message p =
     p\<lparr>msg_textContent := MSG_LOGIN_FAILED @ message, msg_color := utf16 ''red''\<rparr>"

text \<open>
  The click handler of \<^verbatim>\<open>loginBtn\<close>, from the two form fields and the outcome of the
  request. The navigation to the main page is the one scheduled by \<^verbatim>\<open>setTimeout\<close>.
\<close>

definition login_click ::
  "jsstring \<Rightarrow> jsstring \<Rightarrow> login_data fetch_outcome \<Rightarrow> login_page \<Rightarrow> login_page" where
  "login_click username_value password_value outcome p =
     (let username = trim username_value;
          password = trim password_value
      in if username = [] \<or> password = []
         then p\<lparr>msg_textContent := MSG_ENTER_CREDENTIALS, msg_color := utf16 ''red''\<rparr>
         else
           (case outcome of
              Rejected message \<Rightarrow> login_failed message p
            | Resolved resp \<Rightarrow>
                if \<not> ok resp then login_failed (body_text resp) p
                else
                  (case body_json resp of
                     Inl message \<Rightarrow> login_failed message p
                   | Inr data \<Rightarrow>
                       p\<lparr>localStorage :=
                            setItem USERNAME (js_or (login_data.username data) username)
                              (setItem TOKEN (js_or (login_data.token data) MOCK_TOKEN)
                                (localStorage p)),
                         navigations := navigations p @ [Href INDEX_PAGE],
                         msg_textContent := MSG_LOGIN_OK,
                         msg_color := utf16 ''green''\<rparr>)))"


section \<open>Account Actions\<close>

text \<open>Both actions end a session by removing the three keys.\<close>

definition clear_session :: "storage \<Rightarrow> storage" where
  "clear_session st = removeItem THEME (removeItem TOKEN (removeItem USERNAME st))"

text \<open>
  The click handler of \<^verbatim>\<open>logoutBtn\<close>. The response of the notification is not read;
  a rejected request is caught and written to the console as a warning.
\<close>

definition logout_click :: "'d fetch_outcome \<Rightarrow> app_page \<Rightarrow> app_page" where
  "logout_click outcome p =
     (let p1 = (case outcome of
                  Rejected message \<Rightarrow> p\<lparr>console := console p @ [ConsoleWarn]\<rparr>
                | Resolved resp \<Rightarrow> p)
      in p1\<lparr>localStorage := clear_session (localStorage p1),
             navigations := navigations p1 @ [Replace LOGIN_PAGE]\<rparr>)"

text \<open>The body of a change-password response: \<^verbatim>\<open>{message?}\<close> or \<^verbatim>\<open>{error?}\<close>.\<close>

record change_password_data =
  error :: "jsstring option"
  message :: "jsstring option"

text \<open>The texts of the handler: "please log in first!", the prefix "(cross mark)
  change failed:" of the failure alert, the generic error "change failed", and the default
  confirmation "password changed, please log in again".\<close>

definition MSG_LOGIN_FIRST :: jsstring where
  "MSG_LOGIN_FIRST = [0x8BF7, 0x5148, 0x767B, 0x5F55, 0xFF01]"

definition CHANGE_FAILED_PREFIX :: jsstring where
  "CHANGE_FAILED_PREFIX = [0x274C, 0x0020, 0x4FEE, 0x6539, 0x5931, 0x8D25, 0xFF1A]"

definition CHANGE_FAILED :: jsstring where
  "CHANGE_FAILED = [0x4FEE, 0x6539, 0x5931, 0x8D25]"

definition CHANGE_OK :: jsstring where
  "CHANGE_OK =
     [0x5BC6, 0x7801, 0x4FEE, 0x6539, 0x6210, 0x529F, 0xFF0C, 0x8BF7, 0x91CD, 0x65B0, 0x767B,
      0x5F55]"

definition alert :: "jsstring \<Rightarrow> app_page \<Rightarrow> app_page" where
  "alert text p = p\<lparr>alerts := alerts p @ [text]\<rparr>"

text \<open>The \<^verbatim>\<open>catch\<close> block: every error thrown inside \<^verbatim>\<open>try\<close> ends here, with its message.\<close>

definition change_failed :: "jsstring \<Rightarrow> app_page \<Rightarrow> app_page" where
  "change_failed err_message p = alert (CHANGE_FAILED_PREFIX @ err_message) p"

text \<open>
  The click handler of \<^verbatim>\<open>changePwdBtn\<close>, from the answers to the two prompts
  (\<open>None\<close> for a cancelled prompt) and the outcome of the request.
\<close>

definition change_password_click ::
  "jsstring option \<Rightarrow> jsstring option \<Rightarrow> change_password_data fetch_outcome \<Rightarrow> app_page
     \<Rightarrow> app_page" where
  "change_password_click oldPwd newPwd outcome p =
     (let username = getItem USERNAME (localStorage p);
          token = getItem TOKEN (localStorage p)
      in if \<not> truthy username
         then (alert MSG_LOGIN_FIRST p)\<lparr>navigations := navigations p @ [Href LOGIN_PAGE]\<rparr>
         else if \<not> truthy oldPwd then p
         else if \<not> truthy newPwd then p
         else
           (case outcome of
              Rejected err_message \<Rightarrow> change_failed err_message p
            | Resolved resp \<Rightarrow>
                (case body_json resp of
                   Inl err_message \<Rightarrow> change_failed err_message p
                 | Inr data \<Rightarrow>
                     if \<not> ok resp then change_failed (js_or (error data) CHANGE_FAILED) p
                     else
                       (let p1 = alert (js_or (message data) CHANGE_OK) p
                        in p1\<lparr>localStorage := clear_session (localStorage p1),
                               navigations := navigations p1 @ [Replace LOGIN_PAGE]\<rparr>))))"


section \<open>Request bodies\<close>

text \<open>
  A number of the program, an IEEE 754 binary64 value: \<^verbatim>\<open>NaN\<close>, an infinity, or a finite
  value, written as the rational it is exactly. The two zeros are one value here:
  \<^verbatim>\<open>===\<close> and \<^verbatim>\<open>JSON.stringify\<close> do not tell them apart.
\<close>

datatype number = NaN | PosInfinity | NegInfinity | Num rat

text \<open>The values that occur in the request bodies, and a body as its keys in order.\<close>

datatype json = JNull | JNumber rat | JString jsstring

type_synonym json_object = "(jsstring \<times> json) list"

text \<open>
  \<^verbatim>\<open>JSON.stringify\<close> writes a number that is not finite as \<^verbatim>\<open>null\<close>; a finite one is
  written so that it reads back as the same binary64 value, which \<open>JNumber\<close> holds.
\<close>

definition json_of_number :: "number \<Rightarrow> json" where
  "json_of_number n = (case n of Num r \<Rightarrow> JNumber r | _ \<Rightarrow> JNull)"

text \<open>
  The payload of the Reload Action, from the answers to the two prompts: a key is
  assigned only under \<^verbatim>\<open>if (adapter)\<close>, \<^verbatim>\<open>if (base)\<close>.
\<close>

definition reload_payload :: "jsstring option \<Rightarrow> jsstring option \<Rightarrow> json_object" where
  "reload_payload adapter base =
     (case adapter of
        None \<Rightarrow> []
      | Some a \<Rightarrow> if a \<noteq> [] then [(utf16 ''adapter_path'', JString a)] else [])
     @ (case base of
          None \<Rightarrow> []
        | Some b \<Rightarrow> if b \<noteq> [] then [(utf16 ''base_path'', JString b)] else [])"

definition has_key :: "jsstring \<Rightarrow> json_object \<Rightarrow> bool" where
  "has_key k obj = (map_of obj k \<noteq> None)"


section \<open>parseFloat and the threshold of the Detection Flow\<close>

text \<open>
  \<^verbatim>\<open>parseFloat\<close> drops leading white space and reads the longest prefix that is a
  StrDecimalLiteral: an optional sign, then \<^verbatim>\<open>Infinity\<close>, or digits with an optional
  fraction, or a fraction alone, then an optional exponent. Without such a prefix the
  result is \<^verbatim>\<open>NaN\<close>.
\<close>

definition PLUS :: code_unit where "PLUS = 0x2B"
definition MINUS :: code_unit where "MINUS = 0x2D"
definition DOT :: code_unit where "DOT = 0x2E"

definition isDigit :: "code_unit \<Rightarrow> bool" where
  "isDigit c = (0x30 \<le> c \<and> c \<le> 0x39)"

definition digits_value :: "jsstring \<Rightarrow> int" where
  "digits_value ds = foldl (\<lambda>n c. 10 * n + (uint c - 48)) 0 ds"

text \<open>
  The value of the ExponentPart at the head of \<open>s\<close>: \<^verbatim>\<open>e\<close> or \<^verbatim>\<open>E\<close>, an optional sign
  and at least one digit. Anything else is not part of the literal, and the exponent is 0.
\<close>

definition exponent_value :: "jsstring \<Rightarrow> int" where
  "exponent_value s =
     (case s of
        [] \<Rightarrow> 0
      | e # r \<Rightarrow>
          if e = 0x65 \<or> e = 0x45
          then (case r of
                  [] \<Rightarrow> 0
                | sg # r' \<Rightarrow>
                    if sg = PLUS then digits_value (takeWhile isDigit r')
                    else if sg = MINUS then - digits_value (takeWhile isDigit r')
                    else digits_value (takeWhile isDigit r))
          else 0)"

text \<open>
  The finite StrUnsignedDecimalLiteral at the head of \<open>s\<close>, if there is one: digits, then
  perhaps a dot and perhaps digits; or a dot and digits; then the exponent. Its
  mathematical value is \<open>m * 10 ^ k\<close> for the pair \<open>(m, k)\<close> returned: \<open>m\<close> is the number
  written by all its digits, \<open>k\<close> the exponent less the number of digits after the dot.
\<close>

definition unsigned_decimal :: "jsstring \<Rightarrow> (int \<times> int) option" where
  "unsigned_decimal s =
     (let ip = takeWhile isDigit s;
          r1 = dropWhile isDigit s
      in case r1 of
           [] \<Rightarrow> if ip = [] then None else Some (digits_value ip, 0)
         | d # r2 \<Rightarrow>
             if d = DOT
             then (let fp = takeWhile isDigit r2;
                       r3 = dropWhile isDigit r2
                   in if ip = [] \<and> fp = [] then None
                      else Some (digits_value (ip @ fp), exponent_value r3 - int (length fp)))
             else if ip = [] then None
             else Some (digits_value ip, exponent_value r1))"

text \<open>
  The Number value of a mathematical value: the binary64 value nearest to it, ties to
  the even significand, as the engines compute it. The value is the fraction \<open>a / b\<close> of
  two integers, \<open>0 \<le> a\<close> and \<open>0 < b\<close>.

  \<open>bit_length n\<close> is the number of binary digits of \<open>n\<close>. \<open>binade a b\<close> is the exponent
  \<open>e\<close> with \<open>2 ^ e \<le> a / b < 2 ^ (e + 1)\<close>, but not less than -1022, the exponent of the
  subnormal values. The significand is \<open>a / b\<close> in units of \<open>2 ^ (e - 52)\<close>, rounded to an
  integer. A result of \<open>2 ^ 1024\<close> or more is \<^verbatim>\<open>Infinity\<close>.
\<close>

function bit_length :: "int \<Rightarrow> nat" where
  "bit_length n = (if n \<le> 0 then 0 else Suc (bit_length (n div 2)))"
  by pat_completeness auto
termination
  by (relation "measure nat") auto

declare bit_length.simps [simp del]

definition pow2 :: "int \<Rightarrow> rat" where
  "pow2 e = (if 0 \<le> e then 2 ^ nat e else 1 / 2 ^ nat (- e))"

definition at_least_pow2 :: "int \<Rightarrow> int \<Rightarrow> int \<Rightarrow> bool" where
  "at_least_pow2 a b d = (if 0 \<le> d then b * 2 ^ nat d \<le> a else b \<le> a * 2 ^ nat (- d))"

definition binade :: "int \<Rightarrow> int \<Rightarrow> int" where
  "binade a b =
     (let d = int (bit_length a) - int (bit_length b)
      in max (if at_least_pow2 a b d then d else d - 1) (- 1022))"

definition round_half_even :: "int \<Rightarrow> int \<Rightarrow> int" where
  "round_half_even N D =
     (let n = N div D;
          r = N mod D
      in if D < 2 * r \<or> (2 * r = D \<and> odd n) then n + 1 else n)"

definition significand :: "int \<Rightarrow> int \<Rightarrow> int \<Rightarrow> int" where
  "significand a b p =
     (if 0 \<le> p then round_half_even a (b * 2 ^ nat p)
      else round_half_even (a * 2 ^ nat (- p)) b)"

definition finite_or_infinite :: "rat \<Rightarrow> number" where
  "finite_or_infinite v = (if 2 ^ 1024 \<le> v then PosInfinity else Num v)"

definition round_binary64 :: "int \<Rightarrow> int \<Rightarrow> number" where
  "round_binary64 a b =
     (if a = 0 then Num 0
      else (let p = binade a b - 52
            in finite_or_infinite (of_int (significand a b p) * pow2 p)))"

text \<open>The Number value of the decimal \<open>m * 10 ^ k\<close>.\<close>

definition decimal_binary64 :: "int \<Rightarrow> int \<Rightarrow> number" where
  "decimal_binary64 m k =
     (if 0 \<le> k then round_binary64 (m * 10 ^ nat k) 1
      else round_binary64 m (10 ^ nat (- k)))"

definition unsigned_literal :: "jsstring \<Rightarrow> number" where
  "unsigned_literal s =
     (if take 8 s = utf16 ''Infinity'' then PosInfinity
      else case unsigned_decimal s of
             None \<Rightarrow> NaN
           | Some (m, k) \<Rightarrow> decimal_binary64 m k)"

definition negate :: "number \<Rightarrow> number" where
  "negate n =
     (case n of NaN \<Rightarrow> NaN | PosInfinity \<Rightarrow> NegInfinity | NegInfinity \<Rightarrow> PosInfinity
      | Num r \<Rightarrow> Num (- r))"

definition parseFloat :: "jsstring \<Rightarrow> number" where
  "parseFloat string =
     (case trimStart string of
        [] \<Rightarrow> NaN
      | c # r \<Rightarrow>
          if c = MINUS then negate (unsigned_literal r)
          else if c = PLUS then unsigned_literal r
          else unsigned_literal (c # r))"

text \<open>
  \<^verbatim>\<open>parseFloat(thresholdInput.value || 0.5)\<close>: the value of an input element is a
  string; when it is empty the argument is the number 0.5, which \<^verbatim>\<open>parseFloat\<close> first
  converts to the string \<^verbatim>\<open>"0.5"\<close>.
\<close>

definition predict_threshold :: "jsstring \<Rightarrow> number" where
  "predict_threshold threshold_value =
     parseFloat (if threshold_value \<noteq> [] then threshold_value else utf16 ''0.5'')"

text \<open>
  The body of the predict request, or \<open>None\<close> when the trimmed source text is empty and
  \<^verbatim>\<open>predict\<close> returns after its alert, before any request.
\<close>

definition predict_body :: "jsstring \<Rightarrow> jsstring \<Rightarrow> json_object option" where
  "predict_body inputText_value threshold_value =
     (let text = trim inputText_value
      in if text = [] then None
         else Some [(utf16 ''text'', JString text),
                    (utf16 ''threshold'', json_of_number (predict_threshold threshold_value))])"


text \<open>
  A request succeeded when the promise resolved to a response with a success status
  whose body parsed as JSON.
\<close>

definition succeeded :: "'d fetch_outcome \<Rightarrow> bool" where
  "succeeded outcome =
     (case outcome of
        Rejected m \<Rightarrow> False
      | Resolved resp \<Rightarrow> ok resp \<and> (case body_json resp of Inl m \<Rightarrow> False | Inr d \<Rightarrow> True))"


section \<open>Evaluation rules\<close>

lemmas unit_defs = AMP_def LT_def GT_def QUOT_def APOS_def COLON_def NL_def
lemmas class_defs = isLineTerminator_def isWhiteSpace_def isTrimmed_def
lemmas split_defs = label_title_def label_desc_def part_trimmed_def split_colon_rest_def
  match_colon_rest_def elem_at_def trim_def
lemmas store_defs = getItem_def setItem_def removeItem_def clear_session_def
lemmas parse_defs = predict_threshold_def parseFloat_def trimStart_def unsigned_literal_def
  unsigned_decimal_def exponent_value_def digits_value_def isDigit_def negate_def
  PLUS_def MINUS_def DOT_def

lemma keys_distinct:
  "USERNAME \<noteq> TOKEN" "USERNAME \<noteq> THEME" "TOKEN \<noteq> THEME"
  "TOKEN \<noteq> USERNAME" "THEME \<noteq> USERNAME" "THEME \<noteq> TOKEN"
  by (simp_all add: USERNAME_def TOKEN_def THEME_def utf16_def)

lemma trim_Nil: "trim [] = []"
  by (simp add: trim_def)

lemma trim_alice: "trim (utf16 ''alice'') = utf16 ''alice''"
  by (simp add: trim_def utf16_def class_defs)

lemma trim_secret: "trim (utf16 ''secret'') = utf16 ''secret''"
  by (simp add: trim_def utf16_def class_defs)


section \<open>Properties of escapeHtml\<close>

lemma replace_all_Nil: "replace_all c r [] = []"
  by (simp add: replace_all_def)

lemma replace_all_Cons:
  "replace_all c r (x # xs) = (if x = c then r else [x]) @ replace_all c r xs"
  by (simp add: replace_all_def)

lemma replace_all_append:
  "replace_all c r (xs @ ys) = replace_all c r xs @ replace_all c r ys"
  by (simp add: replace_all_def)

lemma escapeHtml_Nil: "escapeHtml [] = []"
  by (simp add: escapeHtml_def replace_all_Nil)

text \<open>
  The five passes do not disturb each other: the ampersand goes first, and no entity
  contains one of the four characters replaced after it.
\<close>

lemma escapeHtml_Cons: "escapeHtml (c # s) = entity c @ escapeHtml s"
  by (simp add: escapeHtml_def entity_def replace_all_Cons replace_all_append replace_all_Nil
      utf16_def unit_defs)

lemma escapeHtml_entity: "escapeHtml s = concat (map entity s)"
  by (induction s) (simp_all add: escapeHtml_Nil escapeHtml_Cons)

lemma entity_clean:
  "LT \<notin> set (entity c) \<and> GT \<notin> set (entity c) \<and> QUOT \<notin> set (entity c)
   \<and> APOS \<notin> set (entity c)"
  by (simp add: entity_def utf16_def unit_defs)

lemma escapeHtml_clean:
  "LT \<notin> set (escapeHtml s) \<and> GT \<notin> set (escapeHtml s) \<and> QUOT \<notin> set (escapeHtml s)
   \<and> APOS \<notin> set (escapeHtml s)"
  by (induction s) (simp_all add: escapeHtml_Nil escapeHtml_Cons entity_clean)

lemma escapeHtml_script:
  "escapeHtml (utf16 ''<script>alert(1)</script>'')
     = utf16 ''&lt;script&gt;alert(1)&lt;/script&gt;''"
  by (simp add: escapeHtml_entity entity_def utf16_def unit_defs)


section \<open>Properties of the Result Renderer\<close>

lemma forEach_label_appended:
  "appended (forEach_label ls r) = appended r @ map card ls"
  by (induction ls arbitrary: r) (simp_all add: appendChild_def)

lemma forEach_label_markup:
  "markup (forEach_label ls r) = markup r"
  by (induction ls arbitrary: r) (simp_all add: appendChild_def)

lemma showResults_cards:
  "showResults \<lparr>labels = Some (l # ls), probs = ps\<rparr> r0
     = \<lparr>markup = [], appended = map card (l # ls)\<rparr>"
  by (simp add: showResults_def Let_def set_innerHTML_def forEach_label_appended
      forEach_label_markup appendChild_def)

text \<open>
  C1. Every label of a non-empty list is rendered as one card, whose markup is the fixed
  template around the escaped title and the escaped description. Escaping replaces each of
  the five characters \<^verbatim>\<open>& < > " '\<close> by its entity and keeps every other code unit, so
  the escaped text of any string (one containing \<^verbatim>\<open><script>\<close> included) holds no
  \<^verbatim>\<open><\<close>, \<^verbatim>\<open>>\<close>, \<^verbatim>\<open>"\<close> or \<^verbatim>\<open>'\<close>.
\<close>

theorem C1_title_and_description_escaped:
  "appended (showResults \<lparr>labels = Some (l # ls), probs = ps\<rparr> r0) = map card (l # ls)
   \<and> innerHTML (card label)
       = card_template (escapeHtml (label_title label)) (escapeHtml (label_desc label))
   \<and> escapeHtml s = concat (map entity s)
   \<and> LT \<notin> set (escapeHtml s) \<and> GT \<notin> set (escapeHtml s)
   \<and> QUOT \<notin> set (escapeHtml s) \<and> APOS \<notin> set (escapeHtml s)"
  using escapeHtml_clean [of s]
  by (simp add: showResults_cards card_def Let_def escapeHtml_entity [symmetric])

text \<open>Where the split does what its comment says.\<close>

lemma split_from_no_colon:
  "COLON \<notin> set s \<Longrightarrow> split_from piece s = [piece @ s]"
  by (induction s arbitrary: piece) (auto simp: match_colon_rest_def)

lemma split_from_first_colon:
  assumes "COLON \<notin> set a" and "b \<noteq> []" and "\<forall>x\<in>set b. \<not> isLineTerminator x"
  shows "split_from piece (a @ COLON # b) = [piece @ a, b, []]"
  using assms
proof (induction a arbitrary: piece)
  case Nil
  then have tw: "takeWhile (\<lambda>x. \<not> isLineTerminator x) b = b"
    and dw: "dropWhile (\<lambda>x. \<not> isLineTerminator x) b = []"
    by simp_all
  from Nil(2) show ?case
    by (simp add: match_colon_rest_def tw dw)
next
  case (Cons c a)
  then show ?case
    by (auto simp: match_colon_rest_def)
qed

text \<open>
  A label without a colon: the title is the whole trimmed label, the description is
  empty and no description element is rendered.
\<close>

lemma label_without_colon:
  "COLON \<notin> set label \<Longrightarrow>
     label_title label = trim label \<and> label_desc label = []
     \<and> desc_element (escapeHtml (label_desc label)) = []"
  by (cases label)
     (simp_all add: label_title_def label_desc_def part_trimmed_def split_colon_rest_def
       match_colon_rest_def elem_at_def trim_Nil split_from_no_colon escapeHtml_def
       replace_all_def desc_element_def del: split_from.simps)

text \<open>
  A label whose first colon is followed by at least one code unit and by no line
  terminator: title and description are the trimmed texts before and after that colon.
\<close>

lemma label_with_colon_on_one_line:
  assumes "COLON \<notin> set a" and "b \<noteq> []" and "\<forall>x\<in>set b. \<not> isLineTerminator x"
  shows "label_title (a @ COLON # b) = trim a \<and> label_desc (a @ COLON # b) = trim b"
  using split_from_first_colon [OF assms, of "[]"] assms(2)
  by (simp add: label_title_def label_desc_def part_trimmed_def split_colon_rest_def
      elem_at_def trim_Nil)

lemma label_A_B_C:
  "label_title (utf16 ''A: B: C'') = utf16 ''A''
   \<and> label_desc (utf16 ''A: B: C'') = utf16 ''B: C''"
  by (simp add: split_defs utf16_def unit_defs class_defs)

text \<open>
  C2. The split is not always at the first colon. A label ending in its only colon is
  not split at all: the title of \<^verbatim>\<open>"A:"\<close> is \<^verbatim>\<open>"A:"\<close>, colon included. When a line
  terminator follows the first colon at once, the split is at a later colon; and text
  after a line terminator in the description is dropped: the description of
  \<^verbatim>\<open>"A:B\nC"\<close> is \<^verbatim>\<open>"B"\<close>.
\<close>

theorem C2_split_not_at_first_colon:
  "label_title (utf16 ''A:'') = utf16 ''A:''
   \<and> label_desc (utf16 ''A:'') = []
   \<and> label_title (utf16 ''A:B'' @ [NL] @ utf16 ''C'') = utf16 ''A''
   \<and> label_desc (utf16 ''A:B'' @ [NL] @ utf16 ''C'') = utf16 ''B''
   \<and> label_title (utf16 ''A:'' @ [NL] @ utf16 ''B:C'') = utf16 ''A:'' @ [NL] @ utf16 ''B''
   \<and> label_desc (utf16 ''A:'' @ [NL] @ utf16 ''B:C'') = utf16 ''C''"
  by (simp add: split_defs utf16_def unit_defs class_defs)

text \<open>
  C9. For a response whose \<^verbatim>\<open>labels\<close> is the empty list, the container holds exactly
  the "no findings" notice as its markup and no card, whatever it held before.
\<close>

theorem C9_empty_labels_notice:
  "showResults \<lparr>labels = Some [], probs = ps\<rparr> r0
     = \<lparr>markup = no_findings_notice, appended = []\<rparr>
   \<and> cards (showResults \<lparr>labels = Some [], probs = ps\<rparr> r0) = []"
  by (simp add: showResults_def Let_def set_innerHTML_def cards_def)

text \<open>
  C10. A response object without the \<^verbatim>\<open>labels\<close> key is rendered exactly as one whose
  \<^verbatim>\<open>labels\<close> is empty: the notice and no card.
\<close>

theorem C10_missing_labels_as_empty:
  "showResults \<lparr>labels = None, probs = ps\<rparr> r0
     = showResults \<lparr>labels = Some [], probs = ps\<rparr> r0
   \<and> showResults \<lparr>labels = None, probs = ps\<rparr> r0
     = \<lparr>markup = no_findings_notice, appended = []\<rparr>
   \<and> cards (showResults \<lparr>labels = None, probs = ps\<rparr> r0) = []"
  by (simp add: showResults_def Let_def set_innerHTML_def cards_def)


section \<open>Properties of the Detection Flow\<close>

text \<open>Evaluating the rounding: the bit length from two bounds, the rest by arithmetic.\<close>

lemma bit_length_eqI:
  "2 ^ k \<le> n \<Longrightarrow> n < 2 ^ Suc k \<Longrightarrow> bit_length n = Suc k"
proof (induction k arbitrary: n)
  case 0
  then have "n = 1"
    by simp
  then show ?case
    by (simp add: bit_length.simps [of 1] bit_length.simps [of 0])
next
  case (Suc k)
  from Suc.prems have "2 ^ k \<le> n div 2" and "n div 2 < 2 ^ Suc k"
    by simp_all
  then have "bit_length (n div 2) = Suc k"
    by (rule Suc.IH)
  moreover have "0 < n"
    using Suc.prems(1) by (simp add: less_le_trans [OF zero_less_power [of 2 "Suc k"]])
  ultimately show ?case
    by (simp add: bit_length.simps [of n])
qed

lemma round_binary64_eval:
  assumes "a \<noteq> 0" and "binade a b = e" and "significand a b (e - 52) = n"
  shows "round_binary64 a b = finite_or_infinite (of_int n * pow2 (e - 52))"
  using assms by (simp add: round_binary64_def Let_def)

text \<open>
  The decimals 0.5 and 0.75 are binary64 values; 0.1 is not, and is rounded.
\<close>

lemma decimal_binary64_half: "decimal_binary64 5 (- 1) = Num (1 / 2)"
proof -
  have l5: "bit_length 5 = 3" and l10: "bit_length 10 = 4"
    by (simp_all add: bit_length_eqI [of 2] bit_length_eqI [of 3])
  have e: "binade 5 10 = - 1"
    by (simp add: binade_def at_least_pow2_def l5 l10)
  have s: "significand 5 10 (- 1 - 52) = 2 ^ 52"
    by (simp add: significand_def round_half_even_def)
  have "round_binary64 5 10 = finite_or_infinite (of_int (2 ^ 52) * pow2 (- 1 - 52))"
    by (rule round_binary64_eval [OF _ e s]) simp
  then show ?thesis
    by (simp add: decimal_binary64_def finite_or_infinite_def pow2_def)
qed

lemma decimal_binary64_three_quarters: "decimal_binary64 75 (- 2) = Num (3 / 4)"
proof -
  have l75: "bit_length 75 = 7" and l100: "bit_length 100 = 7"
    by (simp_all add: bit_length_eqI [of 6])
  have e: "binade 75 100 = - 1"
    by (simp add: binade_def at_least_pow2_def l75 l100)
  have s: "significand 75 100 (- 1 - 52) = 3 * 2 ^ 51"
    by (simp add: significand_def round_half_even_def)
  have "round_binary64 75 100 = finite_or_infinite (of_int (3 * 2 ^ 51) * pow2 (- 1 - 52))"
    by (rule round_binary64_eval [OF _ e s]) simp
  then show ?thesis
    by (simp add: decimal_binary64_def finite_or_infinite_def pow2_def)
qed

lemma decimal_binary64_tenth:
  "decimal_binary64 1 (- 1) = Num (3602879701896397 / 36028797018963968)"
proof -
  have l10: "bit_length 10 = 4" and l1: "bit_length 1 = 1"
    using bit_length_eqI [of 3 10] bit_length_eqI [of 0 1] by simp_all
  have e: "binade 1 10 = - 4"
    by (simp add: binade_def at_least_pow2_def l10 l1)
  have s: "significand 1 10 (- 4 - 52) = 7205759403792794"
    by (simp add: significand_def round_half_even_def)
  have "round_binary64 1 10 = finite_or_infinite (of_int 7205759403792794 * pow2 (- 4 - 52))"
    by (rule round_binary64_eval [OF _ e s]) simp
  then show ?thesis
    by (simp add: decimal_binary64_def finite_or_infinite_def pow2_def)
qed

text \<open>
  Out of the binary64 range: \<open>10 ^ 400\<close> rounds to \<^verbatim>\<open>Infinity\<close>, \<open>10 ^ -400\<close> to zero.
\<close>

lemma bit_length_1e400: "bit_length (10 ^ 400) = 1329"
  using bit_length_eqI [of 1328 "10 ^ 400"] by simp

lemma bit_length_1: "bit_length 1 = 1"
  using bit_length_eqI [of 0 1] by simp

lemma decimal_binary64_overflow: "decimal_binary64 1 400 = PosInfinity"
proof -
  have e: "binade (10 ^ 400) 1 = 1328"
    unfolding binade_def Let_def bit_length_1e400 bit_length_1
    by (simp add: at_least_pow2_def)
  have s: "significand (10 ^ 400) 1 (1328 - 52) = 7686445155841023"
    by (simp add: significand_def round_half_even_def)
  have "round_binary64 (10 ^ 400) 1
      = finite_or_infinite (of_int 7686445155841023 * pow2 (1328 - 52))"
    by (rule round_binary64_eval [OF _ e s]) simp
  also have "\<dots> = PosInfinity"
    by (simp add: finite_or_infinite_def pow2_def)
  finally show ?thesis
    by (simp add: decimal_binary64_def)
qed

lemma decimal_binary64_underflow: "decimal_binary64 1 (- 400) = Num 0"
proof -
  have e: "binade 1 (10 ^ 400) = - 1022"
    unfolding binade_def Let_def bit_length_1e400 bit_length_1
    by (simp add: at_least_pow2_def)
  have s: "significand 1 (10 ^ 400) (- 1022 - 52) = 0"
    by (simp add: significand_def round_half_even_def)
  have "round_binary64 1 (10 ^ 400) = finite_or_infinite (of_int 0 * pow2 (- 1022 - 52))"
    by (rule round_binary64_eval [OF _ e s]) simp
  then show ?thesis
    by (simp add: decimal_binary64_def finite_or_infinite_def)
qed

lemma parseFloat_examples:
  "parseFloat (utf16 ''0.75'') = Num (3 / 4)"
  "parseFloat (utf16 '' -.75e+0xyz'') = Num (- (3 / 4))"
  "parseFloat (utf16 ''.5'') = Num (1 / 2)"
  "parseFloat (utf16 ''0.1'') = Num (3602879701896397 / 36028797018963968)"
  "parseFloat (utf16 ''1e400'') = PosInfinity"
  "parseFloat (utf16 ''-1e400'') = NegInfinity"
  "parseFloat (utf16 ''1e-400'') = Num 0"
  "parseFloat (utf16 ''.'') = NaN"
  "parseFloat (utf16 '' '') = NaN"
  by (simp_all add: parse_defs class_defs utf16_def decimal_binary64_half
      decimal_binary64_three_quarters decimal_binary64_tenth decimal_binary64_overflow
      decimal_binary64_underflow)

text \<open>A threshold beyond the binary64 range is sent as \<^verbatim>\<open>null\<close>, one below it as 0.\<close>

lemma predict_body_out_of_range:
  "predict_body (utf16 ''x'') (utf16 ''1e400'')
     = Some [(utf16 ''text'', JString (utf16 ''x'')), (utf16 ''threshold'', JNull)]"
  "predict_body (utf16 ''x'') (utf16 ''1e-400'')
     = Some [(utf16 ''text'', JString (utf16 ''x'')), (utf16 ''threshold'', JNumber 0)]"
  by (simp_all add: parse_defs class_defs utf16_def predict_body_def Let_def
      json_of_number_def trim_def decimal_binary64_overflow decimal_binary64_underflow)

text \<open>
  C3, as the code has it. The threshold is the \<^verbatim>\<open>parseFloat\<close> of the threshold input,
  and is 0.5 when that input is empty; this is the number written into the request body.
  Nothing replaces the result of a parse that fails.
\<close>

theorem C3_threshold_default_on_empty:
  "predict_threshold v = (if v = [] then Num (1 / 2) else parseFloat v)
   \<and> predict_body text v
       = (if trim text = [] then None
          else Some [(utf16 ''text'', JString (trim text)),
                     (utf16 ''threshold'',
                      json_of_number (if v = [] then Num (1 / 2) else parseFloat v))])
   \<and> json_of_number (predict_threshold []) = JNumber (1 / 2)"
proof -
  have "parseFloat (utf16 ''0.5'') = Num (1 / 2)"
    by (simp add: parse_defs class_defs utf16_def decimal_binary64_half)
  then have "predict_threshold v = (if v = [] then Num (1 / 2) else parseFloat v)" for v
    by (simp add: predict_threshold_def)
  then show ?thesis
    by (simp add: predict_body_def Let_def json_of_number_def)
qed

text \<open>
  C3 fails as stated for an input that does not parse: for the threshold input
  \<^verbatim>\<open>"abc"\<close> the threshold is \<^verbatim>\<open>NaN\<close>, not 0.5, and the body carries \<^verbatim>\<open>null\<close>.
\<close>

theorem C3_counterexample_unparsable:
  "parseFloat (utf16 ''abc'') = NaN
   \<and> predict_threshold (utf16 ''abc'') \<noteq> Num (1 / 2)
   \<and> predict_body (utf16 ''x'') (utf16 ''abc'')
       = Some [(utf16 ''text'', JString (utf16 ''x'')), (utf16 ''threshold'', JNull)]"
  by (simp add: parse_defs class_defs utf16_def predict_body_def Let_def json_of_number_def
      trim_def)


section \<open>Properties of the Session Guard\<close>

lemma guard_redirects_iff:
  "guard_redirects st \<longleftrightarrow> \<not> truthy (getItem USERNAME st) \<or> \<not> truthy (getItem TOKEN st)"
  by (simp add: guard_redirects_def session_guard_def Let_def)

text \<open>
  C4, as the code has it. The guard redirects to the login page if and only if at least
  one of the stored \<^verbatim>\<open>username\<close> and \<^verbatim>\<open>token\<close> is absent or is the empty string.
\<close>

theorem C4_guard_redirects_on_absent_or_empty:
  "guard_redirects st \<longleftrightarrow>
     (getItem USERNAME st = None \<or> getItem USERNAME st = Some []
      \<or> getItem TOKEN st = None \<or> getItem TOKEN st = Some [])"
  by (auto simp: guard_redirects_iff truthy_def split: option.splits)

text \<open>
  C4 fails as stated when a stored value is the empty string: with \<^verbatim>\<open>username\<close> stored
  as \<^verbatim>\<open>""\<close> and \<^verbatim>\<open>token\<close> as \<^verbatim>\<open>"abc"\<close> both keys are present, and the guard redirects.
\<close>

theorem C4_counterexample_empty_username:
  "getItem USERNAME (map_of [(USERNAME, []), (TOKEN, utf16 ''abc'')]) \<noteq> None
   \<and> getItem TOKEN (map_of [(USERNAME, []), (TOKEN, utf16 ''abc'')]) \<noteq> None
   \<and> guard_redirects (map_of [(USERNAME, []), (TOKEN, utf16 ''abc'')])"
  by (simp add: guard_redirects_iff truthy_def getItem_def keys_distinct)

text \<open>The four cases of the specification, for stored values that are not empty.\<close>

lemma guard_four_cases:
  "guard_redirects (map_of [(TOKEN, utf16 ''abc'')])"
  "guard_redirects (map_of [(USERNAME, utf16 ''alice'')])"
  "guard_redirects (map_of [])"
  "\<not> guard_redirects (map_of [(USERNAME, utf16 ''alice''), (TOKEN, utf16 ''abc'')])"
  by (simp_all add: guard_redirects_iff truthy_def getItem_def keys_distinct utf16_def)


section \<open>Properties of the Login Flow\<close>

lemma login_click_success:
  assumes "trim username_value \<noteq> []" and "trim password_value \<noteq> []"
    and "ok resp" and "body_json resp = Inr data"
  shows "localStorage (login_click username_value password_value (Resolved resp) p)
     = setItem USERNAME (js_or (login_data.username data) (trim username_value))
         (setItem TOKEN (js_or (login_data.token data) MOCK_TOKEN) (localStorage p))"
  using assms by (simp add: login_click_def Let_def)

lemma js_or_nonempty: "d \<noteq> [] \<Longrightarrow> js_or v d \<noteq> []"
  by (simp add: js_or_def split: option.splits)

text \<open>
  The values written by a successful login are never empty, so the guard lets the main
  page stay after it.
\<close>

lemma login_then_guard_passes:
  assumes "trim username_value \<noteq> []" and "trim password_value \<noteq> []"
    and "ok resp" and "body_json resp = Inr data"
  shows "\<not> guard_redirects
           (localStorage (login_click username_value password_value (Resolved resp) p))"
proof -
  have "MOCK_TOKEN \<noteq> []"
    by (simp add: MOCK_TOKEN_def utf16_def)
  with assms(1) show ?thesis
    unfolding login_click_success [OF assms]
    by (simp add: guard_redirects_iff truthy_def store_defs keys_distinct js_or_nonempty)
qed

text \<open>
  C5, as the code has it. After a successful login response the stored token is the
  server's token when that is a non-empty string, and the placeholder \<^verbatim>\<open>mock-token\<close> when
  the field is missing or empty; the stored username is the server's username when that is
  a non-empty string, and the submitted (trimmed) username when the field is missing or
  empty.
\<close>

theorem C5_login_stores_token_and_username:
  assumes "trim username_value \<noteq> []" and "trim password_value \<noteq> []"
    and "ok resp" and "body_json resp = Inr data"
  shows "getItem TOKEN
           (localStorage (login_click username_value password_value (Resolved resp) p))
       = Some (case login_data.token data of
                 None \<Rightarrow> MOCK_TOKEN
               | Some t \<Rightarrow> if t = [] then MOCK_TOKEN else t)
     \<and> getItem USERNAME
           (localStorage (login_click username_value password_value (Resolved resp) p))
       = Some (case login_data.username data of
                 None \<Rightarrow> trim username_value
               | Some u \<Rightarrow> if u = [] then trim username_value else u)"
  using assms
  by (simp add: login_click_success store_defs js_or_def keys_distinct)

text \<open>
  The two examples of the specification: the response \<^verbatim>\<open>{token:"abc"}\<close> for the submitted
  username \<^verbatim>\<open>"alice"\<close> stores \<^verbatim>\<open>"abc"\<close> and \<^verbatim>\<open>"alice"\<close>; a response with neither field
  stores the placeholder and \<^verbatim>\<open>"alice"\<close>.
\<close>

theorem C5_login_examples:
  "getItem TOKEN (localStorage (login_click (utf16 ''alice'') (utf16 ''secret'')
      (Resolved \<lparr>ok = True, body_text = [],
         body_json = Inr \<lparr>token = Some (utf16 ''abc''), username = None\<rparr>\<rparr>)
      \<lparr>localStorage = map_of [], navigations = [], msg_textContent = [], msg_color = []\<rparr>))
     = Some (utf16 ''abc'')
   \<and> getItem USERNAME (localStorage (login_click (utf16 ''alice'') (utf16 ''secret'')
      (Resolved \<lparr>ok = True, body_text = [],
         body_json = Inr \<lparr>token = Some (utf16 ''abc''), username = None\<rparr>\<rparr>)
      \<lparr>localStorage = map_of [], navigations = [], msg_textContent = [], msg_color = []\<rparr>))
     = Some (utf16 ''alice'')
   \<and> getItem TOKEN (localStorage (login_click (utf16 ''alice'') (utf16 ''secret'')
      (Resolved \<lparr>ok = True, body_text = [],
         body_json = Inr \<lparr>token = None, username = None\<rparr>\<rparr>)
      \<lparr>localStorage = map_of [], navigations = [], msg_textContent = [], msg_color = []\<rparr>))
     = Some MOCK_TOKEN
   \<and> getItem USERNAME (localStorage (login_click (utf16 ''alice'') (utf16 ''secret'')
      (Resolved \<lparr>ok = True, body_text = [],
         body_json = Inr \<lparr>token = None, username = None\<rparr>\<rparr>)
      \<lparr>localStorage = map_of [], navigations = [], msg_textContent = [], msg_color = []\<rparr>))
     = Some (utf16 ''alice'')"
proof -
  let ?data = "\<lparr>token = Some (utf16 ''abc''), username = None\<rparr>"
  let ?resp = "\<lparr>ok = True, body_text = [], body_json = Inr ?data\<rparr>"
  let ?none = "\<lparr>token = None, username = None\<rparr>"
  let ?resp' = "\<lparr>ok = True, body_text = [], body_json = Inr ?none\<rparr>"
  have u: "trim (utf16 ''alice'') \<noteq> []" and pw: "trim (utf16 ''secret'') \<noteq> []"
    unfolding trim_alice trim_secret by (simp_all add: utf16_def)
  have abc: "utf16 ''abc'' \<noteq> []"
    by (simp add: utf16_def)
  have r: "ok ?resp" "body_json ?resp = Inr ?data"
    and r': "ok ?resp'" "body_json ?resp' = Inr ?none"
    by simp_all
  from C5_login_stores_token_and_username [OF u pw r]
    C5_login_stores_token_and_username [OF u pw r']
  show ?thesis
    by (simp add: trim_alice abc)
qed

text \<open>
  C5 fails as stated when the server supplies an empty token: the response
  \<^verbatim>\<open>{token:""}\<close> stores the placeholder, not the server's token.
\<close>

theorem C5_counterexample_empty_token:
  "getItem TOKEN (localStorage (login_click (utf16 ''alice'') (utf16 ''secret'')
      (Resolved \<lparr>ok = True, body_text = [],
         body_json = Inr \<lparr>token = Some [], username = None\<rparr>\<rparr>)
      \<lparr>localStorage = map_of [], navigations = [], msg_textContent = [], msg_color = []\<rparr>))
     = Some MOCK_TOKEN
   \<and> MOCK_TOKEN \<noteq> []"
proof -
  let ?data = "\<lparr>token = Some [], username = None\<rparr>"
  let ?resp = "\<lparr>ok = True, body_text = [], body_json = Inr ?data\<rparr>"
  have u: "trim (utf16 ''alice'') \<noteq> []" and pw: "trim (utf16 ''secret'') \<noteq> []"
    unfolding trim_alice trim_secret by (simp_all add: utf16_def)
  have "ok ?resp" and "body_json ?resp = Inr ?data"
    by simp_all
  from login_click_success [OF u pw this] show ?thesis
    by (simp add: store_defs js_or_def keys_distinct MOCK_TOKEN_def utf16_def)
qed


section \<open>Properties of the Account Actions\<close>

text \<open>
  C7. Whatever the outcome of the logout notification, a rejected request included, the
  handler leaves none of \<^verbatim>\<open>username\<close>, \<^verbatim>\<open>token\<close> and \<^verbatim>\<open>theme\<close> in the storage and then
  replaces the page by the login page; it shows no alert. A rejected request adds a
  console warning and nothing else.
\<close>

theorem C7_logout_always_clears_and_navigates:
  "localStorage (logout_click outcome p) = clear_session (localStorage p)
   \<and> getItem USERNAME (localStorage (logout_click outcome p)) = None
   \<and> getItem TOKEN (localStorage (logout_click outcome p)) = None
   \<and> getItem THEME (localStorage (logout_click outcome p)) = None
   \<and> navigations (logout_click outcome p) = navigations p @ [Replace LOGIN_PAGE]
   \<and> alerts (logout_click outcome p) = alerts p
   \<and> logout_click (Rejected err) p
       = p\<lparr>localStorage := clear_session (localStorage p),
            navigations := navigations p @ [Replace LOGIN_PAGE],
            console := console p @ [ConsoleWarn]\<rparr>"
  by (cases outcome) (simp_all add: logout_click_def Let_def store_defs)

lemma clear_session_other_key:
  "k \<noteq> USERNAME \<Longrightarrow> k \<noteq> TOKEN \<Longrightarrow> k \<noteq> THEME \<Longrightarrow>
     getItem k (clear_session st) = getItem k st"
  by (simp add: store_defs)

text \<open>
  C6, as the code has it. When the three guards of the handler pass and the response
  body is JSON: on a failure response the one alert shown is the fixed prefix followed by
  the server's \<^verbatim>\<open>error\<close> field, or by the generic message when that field is missing or
  empty, and nothing else changes, the storage included; on a success response the
  three keys are cleared and the page is replaced by the login page. Whenever the request
  did not succeed, for any state and any answers to the prompts, the storage is unchanged
  and no navigation other than the redirect of a user who is not logged in is made.
\<close>

theorem C6_change_password_failure_and_success:
  assumes "truthy (getItem USERNAME (localStorage p))" and "truthy oldPwd" and "truthy newPwd"
    and "body_json resp = Inr data"
  shows "(\<not> ok resp \<longrightarrow>
            change_password_click oldPwd newPwd (Resolved resp) p
            = p\<lparr>alerts := alerts p @
                 [CHANGE_FAILED_PREFIX @
                  (case error data of
                     None \<Rightarrow> CHANGE_FAILED
                   | Some e \<Rightarrow> if e = [] then CHANGE_FAILED else e)]\<rparr>)
       \<and> (ok resp \<longrightarrow>
            localStorage (change_password_click oldPwd newPwd (Resolved resp) p)
              = clear_session (localStorage p)
            \<and> navigations (change_password_click oldPwd newPwd (Resolved resp) p)
              = navigations p @ [Replace LOGIN_PAGE])
       \<and> (\<not> succeeded outcome \<longrightarrow>
            localStorage (change_password_click old new outcome q) = localStorage q
            \<and> (navigations (change_password_click old new outcome q) = navigations q
               \<or> navigations (change_password_click old new outcome q)
                  = navigations q @ [Href LOGIN_PAGE]))"
  using assms
  by (auto simp: succeeded_def change_password_click_def Let_def change_failed_def alert_def
      js_or_def split: fetch_outcome.splits sum.splits option.splits)

text \<open>
  The example of the specification: on the failure response
  \<^verbatim>\<open>{error:"wrong password"}\<close> the alert is the prefix followed by \<^verbatim>\<open>wrong password\<close>,
  and the three stored keys are as before.
\<close>

theorem C6_wrong_password_witness:
  "change_password_click (Some (utf16 ''old'')) (Some (utf16 ''new''))
     (Resolved \<lparr>ok = False, body_text = [],
        body_json = Inr \<lparr>error = Some (utf16 ''wrong password''), message = None\<rparr>\<rparr>)
     \<lparr>localStorage = map_of [(USERNAME, utf16 ''alice''), (TOKEN, utf16 ''abc''),
        (THEME, utf16 ''dark'')], navigations = [], alerts = [], console = []\<rparr>
   = \<lparr>localStorage = map_of [(USERNAME, utf16 ''alice''), (TOKEN, utf16 ''abc''),
        (THEME, utf16 ''dark'')], navigations = [],
      alerts = [CHANGE_FAILED_PREFIX @ utf16 ''wrong password''], console = []\<rparr>"
proof -
  let ?data = "\<lparr>error = Some (utf16 ''wrong password''), message = None\<rparr>"
  let ?resp = "\<lparr>ok = False, body_text = [], body_json = Inr ?data\<rparr>"
  let ?p = "\<lparr>localStorage = map_of [(USERNAME, utf16 ''alice''), (TOKEN, utf16 ''abc''),
        (THEME, utf16 ''dark'')], navigations = [], alerts = [], console = []\<rparr>"
  have ne: "utf16 ''alice'' \<noteq> []" "utf16 ''old'' \<noteq> []" "utf16 ''new'' \<noteq> []"
    "utf16 ''wrong password'' \<noteq> []"
    by (simp_all add: utf16_def)
  have u: "truthy (getItem USERNAME (localStorage ?p))"
    by (simp add: truthy_def getItem_def ne)
  have o: "truthy (Some (utf16 ''old''))" and n: "truthy (Some (utf16 ''new''))"
    by (simp_all add: truthy_def ne)
  have j: "body_json ?resp = Inr ?data"
    by simp
  from C6_change_password_failure_and_success [OF u o n j] show ?thesis
    by (simp add: ne)
qed

text \<open>
  C6 fails as stated in the text of the message: on the failure response
  \<^verbatim>\<open>{error:"wrong password"}\<close> the alert is not \<^verbatim>\<open>wrong password\<close> alone.
\<close>

theorem C6_counterexample_message_has_prefix:
  "alerts (change_password_click (Some (utf16 ''old'')) (Some (utf16 ''new''))
     (Resolved \<lparr>ok = False, body_text = [],
        body_json = Inr \<lparr>error = Some (utf16 ''wrong password''), message = None\<rparr>\<rparr>)
     \<lparr>localStorage = map_of [(USERNAME, utf16 ''alice''), (TOKEN, utf16 ''abc''),
        (THEME, utf16 ''dark'')], navigations = [], alerts = [], console = []\<rparr>)
   \<noteq> [utf16 ''wrong password'']"
  by (simp add: change_password_click_def Let_def change_failed_def alert_def js_or_def
      truthy_def getItem_def CHANGE_FAILED_PREFIX_def utf16_def)


section \<open>Properties of the Reload Action\<close>

text \<open>
  C8. The payload has the key \<^verbatim>\<open>adapter_path\<close> exactly when the first prompt was
  answered with a non-empty string, and then with that string as its value; likewise
  \<^verbatim>\<open>base_path\<close> and the second prompt. With only an adapter path entered, the second
  prompt cancelled or left empty, the payload is the one key \<^verbatim>\<open>adapter_path\<close>.
\<close>

theorem C8_reload_payload_keys:
  "has_key (utf16 ''adapter_path'') (reload_payload adapter base)
     = (adapter \<noteq> None \<and> adapter \<noteq> Some [])
   \<and> has_key (utf16 ''base_path'') (reload_payload adapter base)
     = (base \<noteq> None \<and> base \<noteq> Some [])
   \<and> map_of (reload_payload adapter base) (utf16 ''adapter_path'')
     = (case adapter of None \<Rightarrow> None | Some a \<Rightarrow> if a = [] then None else Some (JString a))
   \<and> map_of (reload_payload adapter base) (utf16 ''base_path'')
     = (case base of None \<Rightarrow> None | Some b \<Rightarrow> if b = [] then None else Some (JString b))
   \<and> reload_payload (Some (c # cs)) None = [(utf16 ''adapter_path'', JString (c # cs))]
   \<and> reload_payload (Some (c # cs)) (Some []) = [(utf16 ''adapter_path'', JString (c # cs))]"
  by (simp add: has_key_def reload_payload_def utf16_def split: option.splits)

end
